theory Spec2Isabelle
  imports Main
begin

section \<open>The external package \<open>mcp\<close>, as \<open>demo.py\<close> uses it\<close>

text \<open>
  \<open>demo.py\<close> imports \<open>MCPConnector\<close>, \<open>MCPServiceType\<close> and \<open>ToolCallParams\<close> from the
  package \<open>mcp\<close>, which is not part of the repository. The script only constructs these
  values and calls three methods of the connector, so the package is a parameter of the
  model: a record of the four operations the script calls, over an arbitrary type \<open>'c\<close>
  of connector states. Every operation may return or raise, and the methods may change
  the connector.
\<close>

text \<open>Only \<open>MCPServiceType.stdio\<close> occurs in the script; the second constructor stands
  for the other members of the package's enumeration.\<close>

datatype MCPServiceType = stdio | other_service_type string

record ToolCallParams =
  tool_name :: string
  arguments :: "string \<rightharpoonup> string"

text \<open>The script reads one attribute of what \<open>tool_call\<close> returns, \<open>result.result\<close>, and
  prints it; the field holds the text that \<open>print\<close> shows for it.\<close>

record ToolCallResult =
  result :: string

text \<open>
  What a call can raise. \<open>Error k m\<close> is an instance of Python's \<open>Exception\<close> of kind
  \<open>k\<close> whose \<open>str\<close> is \<open>m\<close>; \<open>CancelledError\<close> is \<open>asyncio.CancelledError\<close>, raised
  at an \<open>await\<close> when the task is cancelled, which derives from \<open>BaseException\<close> and
  not from \<open>Exception\<close>.
\<close>

datatype error_kind = ConnectionError | InvocationError | OtherError

datatype exn = Error error_kind string | CancelledError

record 'c mcp =
  MCPConnector :: "string \<Rightarrow> MCPServiceType \<Rightarrow> exn + 'c"
  connect :: "'c \<Rightarrow> exn option \<times> 'c"
  tool_call :: "'c \<Rightarrow> ToolCallParams \<Rightarrow> (exn + ToolCallResult) \<times> 'c"
  close :: "'c \<Rightarrow> exn option \<times> 'c"

section \<open>Coroutines: state, exceptions, \<open>try\<close> statements\<close>

text \<open>A call of the package and what it raised (\<open>None\<close>: it returned).\<close>

datatype call = NewConnector string MCPServiceType | Connect | ToolCall ToolCallParams | Close

type_synonym event = "call \<times> exn option"

text \<open>The state a run threads through: the connector object, the calls made so far and
  what was printed so far, one entry for each call of \<open>print\<close>.\<close>

record 'c world =
  connector :: 'c
  calls :: "event list"
  stdout :: "string list"

type_synonym ('c, 'a) coro = "'c world \<Rightarrow> (exn + 'a) \<times> 'c world"

definition and_then :: "('c, 'a) coro \<Rightarrow> ('a \<Rightarrow> ('c, 'b) coro) \<Rightarrow> ('c, 'b) coro" where
  "and_then m f w = (case m w of (Inl e, w') \<Rightarrow> (Inl e, w') | (Inr x, w') \<Rightarrow> f x w')"

text \<open>\<open>try: body  except Exception as e: handler\<close>. The clause matches instances of
  \<open>Exception\<close> only; anything else passes through.\<close>

definition try_except_Exception ::
    "('c, 'a) coro \<Rightarrow> (error_kind \<Rightarrow> string \<Rightarrow> ('c, 'a) coro) \<Rightarrow> ('c, 'a) coro" where
  "try_except_Exception body handler w =
     (case body w of
        (Inl (Error k m), w') \<Rightarrow> handler k m w'
      | (Inl CancelledError, w') \<Rightarrow> (Inl CancelledError, w')
      | (Inr x, w') \<Rightarrow> (Inr x, w'))"

text \<open>\<open>try: body  finally: cleanup\<close>. The cleanup runs however the body ends; when
  the cleanup raises, its exception replaces the outcome of the body, otherwise the
  outcome of the body stands (a pending exception is raised again).\<close>

definition try_finally :: "('c, 'a) coro \<Rightarrow> ('c, unit) coro \<Rightarrow> ('c, 'a) coro" where
  "try_finally body cleanup w =
     (case body w of
        (r, w') \<Rightarrow>
          (case cleanup w' of
             (Inl e, w'') \<Rightarrow> (Inl e, w'')
           | (Inr _, w'') \<Rightarrow> (r, w'')))"

text \<open>\<open>print\<close> appends one entry to what was printed. Writing to standard output,
  formatting the message and building \<open>ToolCallParams\<close> are taken to succeed, as is the
  import of the package on lines 1 to 5: the exceptions of a run are those of the four
  operations of the package.\<close>

definition print :: "string \<Rightarrow> ('c, unit) coro" where
  "print s w = (Inr (), w\<lparr>stdout := stdout w @ [s]\<rparr>)"

text \<open>The three awaited methods: each calls the package on the connector, records the
  call, and returns or raises as the package does.\<close>

definition await_connect :: "'c mcp \<Rightarrow> ('c, unit) coro" where
  "await_connect lib w =
     (case connect lib (connector w) of
        (None, c') \<Rightarrow> (Inr (), w\<lparr>connector := c', calls := calls w @ [(Connect, None)]\<rparr>)
      | (Some e, c') \<Rightarrow> (Inl e, w\<lparr>connector := c', calls := calls w @ [(Connect, Some e)]\<rparr>))"

definition await_tool_call :: "'c mcp \<Rightarrow> ToolCallParams \<Rightarrow> ('c, ToolCallResult) coro" where
  "await_tool_call lib p w =
     (case tool_call lib (connector w) p of
        (Inr res, c') \<Rightarrow>
          (Inr res, w\<lparr>connector := c', calls := calls w @ [(ToolCall p, None)]\<rparr>)
      | (Inl e, c') \<Rightarrow>
          (Inl e, w\<lparr>connector := c', calls := calls w @ [(ToolCall p, Some e)]\<rparr>))"

definition await_close :: "'c mcp \<Rightarrow> ('c, unit) coro" where
  "await_close lib w =
     (case close lib (connector w) of
        (None, c') \<Rightarrow> (Inr (), w\<lparr>connector := c', calls := calls w @ [(Close, None)]\<rparr>)
      | (Some e, c') \<Rightarrow> (Inl e, w\<lparr>connector := c', calls := calls w @ [(Close, Some e)]\<rparr>))"

section \<open>\<open>demo.py\<close>\<close>

definition server_name :: string where
  "server_name = ''github.com/awslabs/mcp/tree/main/src/frontend-mcp-server''"

definition params :: ToolCallParams where
  "params = \<lparr>tool_name = ''GetReactDocsByTopic'',
             arguments = [''topic'' \<mapsto> ''essential-knowledge'']\<rparr>"

text \<open>Lines 16 to 29, the body of the \<open>try\<close>.\<close>

definition try_suite :: "'c mcp \<Rightarrow> ('c, unit) coro" where
  "try_suite lib =
     and_then (await_connect lib) (\<lambda>_.
     and_then (await_tool_call lib params) (\<lambda>res.
     and_then (print ''Retrieved React Documentation for Essential Knowledge:'') (\<lambda>_.
     print (result res))))"

text \<open>Line 32, the handler of \<open>except Exception as e\<close>.\<close>

definition except_suite :: "error_kind \<Rightarrow> string \<Rightarrow> ('c, unit) coro" where
  "except_suite k m = print (''Error: '' @ m)"

text \<open>What a run of \<open>get_react_docs\<close> leaves behind: the calls of the package in order,
  the printed lines, and the exception that left the function (\<open>None\<close>: it returned).\<close>

record run =
  trace :: "event list"
  printed :: "string list"
  escaped :: "exn option"

definition get_react_docs :: "'c mcp \<Rightarrow> run" where
  "get_react_docs lib =
     (case MCPConnector lib server_name stdio of
        Inl e \<Rightarrow>
          \<lparr>trace = [(NewConnector server_name stdio, Some e)], printed = [], escaped = Some e\<rparr>
      | Inr c \<Rightarrow>
          (case try_finally (try_except_Exception (try_suite lib) except_suite) (await_close lib)
                  \<lparr>connector = c, calls = [(NewConnector server_name stdio, None)], stdout = []\<rparr> of
             (r, w) \<Rightarrow>
               \<lparr>trace = calls w, printed = stdout w,
                escaped = (case r of Inl e \<Rightarrow> Some e | Inr _ \<Rightarrow> None)\<rparr>))"

text \<open>Lines 37 and 38: \<open>asyncio.run(get_react_docs())\<close> is the last statement of the
  script. The interpreter exits with status 0 when it returns, and with status 1, after
  a traceback on standard error, when an exception leaves it.\<close>

definition exit_status :: "run \<Rightarrow> nat" where
  "exit_status r = (case escaped r of None \<Rightarrow> 0 | Some _ \<Rightarrow> 1)"

definition main :: "'c mcp \<Rightarrow> string list \<times> nat" where
  "main lib = (let r = get_react_docs lib in (printed r, exit_status r))"

section \<open>Servers to run the script against\<close>

text \<open>The two states a connection has: \<open>connect\<close> takes it from \<open>Disconnected\<close> to
  \<open>Connected\<close> and leaves it \<open>Disconnected\<close> when it fails; \<open>close\<close> takes it back.\<close>

datatype conn_state = Disconnected | Connected

text \<open>A package with a scripted behaviour: what the constructor, \<open>connect\<close> and
  \<open>tool_call\<close> raise or return, and what \<open>close\<close> raises in each state.\<close>

definition scripted ::
    "exn option \<Rightarrow> exn option \<Rightarrow> (exn + ToolCallResult) \<Rightarrow> (conn_state \<Rightarrow> exn option)
       \<Rightarrow> conn_state mcp" where
  "scripted new conn tool cl =
     \<lparr>MCPConnector = (\<lambda>n t. case new of Some e \<Rightarrow> Inl e | None \<Rightarrow> Inr Disconnected),
      connect = (\<lambda>s. case conn of Some e \<Rightarrow> (Some e, s) | None \<Rightarrow> (None, Connected)),
      tool_call = (\<lambda>s p. (tool, s)),
      close = (\<lambda>s. (cl s, Disconnected))\<rparr>"

text \<open>Every call succeeds.\<close>

definition healthy :: "conn_state mcp" where
  "healthy = scripted None None (Inr \<lparr>result = ''docs''\<rparr>) (\<lambda>s. None)"

text \<open>The constructor raises.\<close>

definition no_such_server :: "conn_state mcp" where
  "no_such_server = scripted (Some (Error OtherError ''no such server'')) None
     (Inr \<lparr>result = ''docs''\<rparr>) (\<lambda>s. None)"

text \<open>\<open>connect\<close> raises; \<open>close\<close> accepts a connection that was never opened.\<close>

definition unreachable :: "conn_state mcp" where
  "unreachable = scripted None (Some (Error ConnectionError ''refused''))
     (Inr \<lparr>result = ''docs''\<rparr>) (\<lambda>s. None)"

text \<open>\<open>connect\<close> raises, and \<open>close\<close> raises on a connection that was never opened.\<close>

definition strict_close :: "conn_state mcp" where
  "strict_close = scripted None (Some (Error ConnectionError ''refused''))
     (Inr \<lparr>result = ''docs''\<rparr>)
     (\<lambda>s. if s = Disconnected then Some (Error OtherError ''not connected'') else None)"

text \<open>The remote side fails the tool call.\<close>

definition tool_failure :: "conn_state mcp" where
  "tool_failure = scripted None None (Inl (Error InvocationError ''tool failed'')) (\<lambda>s. None)"

text \<open>The task is cancelled while it waits in \<open>connect\<close>, or in \<open>tool_call\<close>.\<close>

definition cancelled_connect :: "conn_state mcp" where
  "cancelled_connect = scripted None (Some CancelledError) (Inr \<lparr>result = ''docs''\<rparr>) (\<lambda>s. None)"

definition cancelled_tool_call :: "conn_state mcp" where
  "cancelled_tool_call = scripted None None (Inl CancelledError) (\<lambda>s. None)"



section \<open>The paths through \<open>get_react_docs\<close>\<close>

lemmas run_defs = get_react_docs_def try_finally_def try_except_Exception_def try_suite_def
  except_suite_def and_then_def print_def await_connect_def await_tool_call_def await_close_def

lemmas server_defs = healthy_def no_such_server_def unreachable_def strict_close_def
  tool_failure_def cancelled_connect_def cancelled_tool_call_def scripted_def

text \<open>A run is decided by what the package does. The constructor raises, or one of five
  things happens inside the \<open>try\<close> statement; each lemma gives the whole run for one of
  them, \<open>x\<close> being what \<open>close\<close> raises.\<close>

lemma path_new_raises:
  "MCPConnector lib server_name stdio = Inl e \<Longrightarrow>
   get_react_docs lib =
     \<lparr>trace = [(NewConnector server_name stdio, Some e)], printed = [], escaped = Some e\<rparr>"
  by (simp add: get_react_docs_def)

lemma path_connect_error:
  "MCPConnector lib server_name stdio = Inr c \<Longrightarrow> connect lib c = (Some (Error k m), c1) \<Longrightarrow>
   close lib c1 = (x, c2) \<Longrightarrow>
   get_react_docs lib =
     \<lparr>trace = [(NewConnector server_name stdio, None), (Connect, Some (Error k m)), (Close, x)],
      printed = [''Error: '' @ m], escaped = x\<rparr>"
  by (cases x) (simp_all add: run_defs)

lemma path_connect_cancelled:
  "MCPConnector lib server_name stdio = Inr c \<Longrightarrow> connect lib c = (Some CancelledError, c1) \<Longrightarrow>
   close lib c1 = (x, c2) \<Longrightarrow>
   get_react_docs lib =
     \<lparr>trace = [(NewConnector server_name stdio, None), (Connect, Some CancelledError), (Close, x)],
      printed = [], escaped = (case x of None \<Rightarrow> Some CancelledError | Some e \<Rightarrow> Some e)\<rparr>"
  by (cases x) (simp_all add: run_defs)

lemma path_tool_call_error:
  "MCPConnector lib server_name stdio = Inr c \<Longrightarrow> connect lib c = (None, c1) \<Longrightarrow>
   tool_call lib c1 params = (Inl (Error k m), c2) \<Longrightarrow> close lib c2 = (x, c3) \<Longrightarrow>
   get_react_docs lib =
     \<lparr>trace = [(NewConnector server_name stdio, None), (Connect, None),
               (ToolCall params, Some (Error k m)), (Close, x)],
      printed = [''Error: '' @ m], escaped = x\<rparr>"
  by (cases x) (simp_all add: run_defs)

lemma path_tool_call_cancelled:
  "MCPConnector lib server_name stdio = Inr c \<Longrightarrow> connect lib c = (None, c1) \<Longrightarrow>
   tool_call lib c1 params = (Inl CancelledError, c2) \<Longrightarrow> close lib c2 = (x, c3) \<Longrightarrow>
   get_react_docs lib =
     \<lparr>trace = [(NewConnector server_name stdio, None), (Connect, None),
               (ToolCall params, Some CancelledError), (Close, x)],
      printed = [], escaped = (case x of None \<Rightarrow> Some CancelledError | Some e \<Rightarrow> Some e)\<rparr>"
  by (cases x) (simp_all add: run_defs)

lemma path_success:
  "MCPConnector lib server_name stdio = Inr c \<Longrightarrow> connect lib c = (None, c1) \<Longrightarrow>
   tool_call lib c1 params = (Inr res, c2) \<Longrightarrow> close lib c2 = (x, c3) \<Longrightarrow>
   get_react_docs lib =
     \<lparr>trace = [(NewConnector server_name stdio, None), (Connect, None),
               (ToolCall params, None), (Close, x)],
      printed = [''Retrieved React Documentation for Essential Knowledge:'', result res],
      escaped = x\<rparr>"
  by (cases x) (simp_all add: run_defs)

text \<open>
  The five cases inside the \<open>try\<close> statement, as a rule for case analysis.
\<close>

lemma run_paths [consumes 1, case_names connect_error connect_cancelled tool_call_error
    tool_call_cancelled success]:
  assumes "MCPConnector lib server_name stdio = Inr c"
  obtains
    k m c1 x c2 where "connect lib c = (Some (Error k m), c1)" "close lib c1 = (x, c2)"
  | c1 x c2 where "connect lib c = (Some CancelledError, c1)" "close lib c1 = (x, c2)"
  | c1 k m c2 x c3 where "connect lib c = (None, c1)"
      "tool_call lib c1 params = (Inl (Error k m), c2)" "close lib c2 = (x, c3)"
  | c1 c2 x c3 where "connect lib c = (None, c1)"
      "tool_call lib c1 params = (Inl CancelledError, c2)" "close lib c2 = (x, c3)"
  | c1 res c2 x c3 where "connect lib c = (None, c1)"
      "tool_call lib c1 params = (Inr res, c2)" "close lib c2 = (x, c3)"
proof -
  obtain a c1 where conn: "connect lib c = (a, c1)" by (cases "connect lib c")
  obtain x1 d1 where cl1: "close lib c1 = (x1, d1)" by (cases "close lib c1")
  obtain t c2 where tc: "tool_call lib c1 params = (t, c2)" by (cases "tool_call lib c1 params")
  obtain x2 d2 where cl2: "close lib c2 = (x2, d2)" by (cases "close lib c2")
  show thesis
  proof (cases a)
    case (Some e)
    with conn cl1 that(1,2) show thesis by (cases e) blast+
  next
    case None
    show thesis
    proof (cases t)
      case (Inr res)
      with conn None tc cl2 that(5) show thesis by blast
    next
      case (Inl e)
      with conn None tc cl2 that(3,4) show thesis by (cases e) blast+
    qed
  qed
qed

text \<open>
  Hence the calls of a run whose connector was constructed: three shapes.
\<close>

lemma trace_shapes:
  assumes "MCPConnector lib server_name stdio = Inr c"
  shows "(\<exists>e x. trace (get_react_docs lib) =
            [(NewConnector server_name stdio, None), (Connect, Some e), (Close, x)])
       \<or> (\<exists>e x. trace (get_react_docs lib) =
            [(NewConnector server_name stdio, None), (Connect, None),
             (ToolCall params, Some e), (Close, x)])
       \<or> (\<exists>x. trace (get_react_docs lib) =
            [(NewConnector server_name stdio, None), (Connect, None),
             (ToolCall params, None), (Close, x)])"
  using assms
proof (cases rule: run_paths)
  case connect_error
  with assms show ?thesis by (simp add: path_connect_error)
next
  case connect_cancelled
  with assms show ?thesis by (simp add: path_connect_cancelled)
next
  case tool_call_error
  with assms show ?thesis by (simp add: path_tool_call_error)
next
  case tool_call_cancelled
  with assms show ?thesis by (simp add: path_tool_call_cancelled)
next
  case success
  with assms show ?thesis by (simp add: path_success)
qed


text \<open>
  What is printed does not depend on \<open>close\<close>, and an exception that \<open>close\<close> raises is
  the one that leaves the function.
\<close>

lemma printed_ignores_close:
  "printed (get_react_docs (lib\<lparr>close := cl\<rparr>)) = printed (get_react_docs lib)"
  by (simp add: run_defs split: sum.splits prod.splits option.splits exn.splits)

lemma close_event_escapes:
  assumes "(Close, Some e) \<in> set (trace (get_react_docs lib))"
  shows "escaped (get_react_docs lib) = Some e"
proof (cases "MCPConnector lib server_name stdio")
  case (Inl e')
  with assms show ?thesis by (simp add: path_new_raises)
next
  case (Inr c)
  then show ?thesis
  proof (cases rule: run_paths)
    case connect_error
    with Inr assms show ?thesis by (simp add: path_connect_error)
  next
    case connect_cancelled
    with Inr assms show ?thesis by (auto simp: path_connect_cancelled)
  next
    case tool_call_error
    with Inr assms show ?thesis by (simp add: path_tool_call_error)
  next
    case tool_call_cancelled
    with Inr assms show ?thesis by (auto simp: path_tool_call_cancelled)
  next
    case success
    with Inr assms show ?thesis by (simp add: path_success)
  qed
qed

section \<open>Release of the connection\<close>






text \<open>
  C8. Cancellation reaches the coroutine as \<open>CancelledError\<close>, raised at the \<open>await\<close> it
  is suspended in. Whether that is \<open>connect\<close> or \<open>tool_call\<close>, the next and last call
  of the run is \<open>close\<close>, and then the cancellation leaves \<open>get_react_docs\<close> (unless
  \<open>close\<close> raises, in which case its exception does).
\<close>

theorem close_runs_on_cancellation:
  assumes new: "MCPConnector lib server_name stdio = Inr c"
  shows "(\<forall>c1 x c2. connect lib c = (Some CancelledError, c1) \<longrightarrow> close lib c1 = (x, c2) \<longrightarrow>
            trace (get_react_docs lib) =
              [(NewConnector server_name stdio, None), (Connect, Some CancelledError), (Close, x)]
            \<and> escaped (get_react_docs lib) =
                (case x of None \<Rightarrow> Some CancelledError | Some e \<Rightarrow> Some e))
       \<and> (\<forall>c1 c2 x c3. connect lib c = (None, c1) \<longrightarrow>
            tool_call lib c1 params = (Inl CancelledError, c2) \<longrightarrow> close lib c2 = (x, c3) \<longrightarrow>
            trace (get_react_docs lib) =
              [(NewConnector server_name stdio, None), (Connect, None),
               (ToolCall params, Some CancelledError), (Close, x)]
            \<and> escaped (get_react_docs lib) =
                (case x of None \<Rightarrow> Some CancelledError | Some e \<Rightarrow> Some e))"
proof -
  have a: "trace (get_react_docs lib) =
              [(NewConnector server_name stdio, None), (Connect, Some CancelledError), (Close, x)]
            \<and> escaped (get_react_docs lib) =
                (case x of None \<Rightarrow> Some CancelledError | Some e \<Rightarrow> Some e)"
    if "connect lib c = (Some CancelledError, c1)" "close lib c1 = (x, c2)" for c1 x c2
    using new that by (simp add: path_connect_cancelled)
  have b: "trace (get_react_docs lib) =
              [(NewConnector server_name stdio, None), (Connect, None),
               (ToolCall params, Some CancelledError), (Close, x)]
            \<and> escaped (get_react_docs lib) =
                (case x of None \<Rightarrow> Some CancelledError | Some e \<Rightarrow> Some e)"
    if "connect lib c = (None, c1)" "tool_call lib c1 params = (Inl CancelledError, c2)"
      "close lib c2 = (x, c3)" for c1 c2 x c3
    using new that by (simp add: path_tool_call_cancelled)
  from a b show ?thesis by blast
qed

theorem close_runs_on_cancellation_witness:
  "MCPConnector cancelled_connect server_name stdio = Inr Disconnected
   \<and> connect cancelled_connect Disconnected = (Some CancelledError, Disconnected)
   \<and> close cancelled_connect Disconnected = (None, Disconnected)
   \<and> trace (get_react_docs cancelled_connect) =
       [(NewConnector server_name stdio, None), (Connect, Some CancelledError), (Close, None)]
   \<and> escaped (get_react_docs cancelled_connect) = Some CancelledError
   \<and> connect cancelled_tool_call Disconnected = (None, Connected)
   \<and> tool_call cancelled_tool_call Connected params = (Inl CancelledError, Connected)
   \<and> close cancelled_tool_call Connected = (None, Disconnected)
   \<and> trace (get_react_docs cancelled_tool_call) =
       [(NewConnector server_name stdio, None), (Connect, None),
        (ToolCall params, Some CancelledError), (Close, None)]
   \<and> escaped (get_react_docs cancelled_tool_call) = Some CancelledError"
proof -
  have u: "MCPConnector cancelled_connect server_name stdio = Inr Disconnected"
    and u1: "connect cancelled_connect Disconnected = (Some CancelledError, Disconnected)"
    and u2: "close cancelled_connect Disconnected = (None, Disconnected)"
    by (simp_all add: server_defs)
  have t: "MCPConnector cancelled_tool_call server_name stdio = Inr Disconnected"
    and t1: "connect cancelled_tool_call Disconnected = (None, Connected)"
    and t2: "tool_call cancelled_tool_call Connected params = (Inl CancelledError, Connected)"
    and t3: "close cancelled_tool_call Connected = (None, Disconnected)"
    by (simp_all add: cancelled_tool_call_def scripted_def)
  from close_runs_on_cancellation [OF u] u1 u2
  have "trace (get_react_docs cancelled_connect) =
       [(NewConnector server_name stdio, None), (Connect, Some CancelledError), (Close, None)]
     \<and> escaped (get_react_docs cancelled_connect) =
        (case None :: exn option of None \<Rightarrow> Some CancelledError | Some e \<Rightarrow> Some e)"
    by blast
  moreover from close_runs_on_cancellation [OF t] t1 t2 t3
  have "trace (get_react_docs cancelled_tool_call) =
       [(NewConnector server_name stdio, None), (Connect, None),
        (ToolCall params, Some CancelledError), (Close, None)]
     \<and> escaped (get_react_docs cancelled_tool_call) =
        (case None :: exn option of None \<Rightarrow> Some CancelledError | Some e \<Rightarrow> Some e)"
    by blast
  ultimately show ?thesis using u u1 u2 t1 t2 t3 by simp
qed

text \<open>
  C9. The handler covers the body of the \<open>try\<close> only. When \<open>close\<close> raises \<open>e\<close> in the
  \<open>finally\<close> clause, \<open>e\<close> leaves \<open>get_react_docs\<close>, the process exits with status 1,
  and nothing is printed for \<open>e\<close>: the printed lines are those of the same run with a
  \<open>close\<close> that returns. This happens in particular after a failed \<open>connect\<close>, where
  \<open>close\<close> is called on a connection that was never established: then the one line
  printed is that of the error of \<open>connect\<close>.
\<close>

theorem close_error_escapes:
  assumes "(Close, Some e) \<in> set (trace (get_react_docs lib))"
  shows "escaped (get_react_docs lib) = Some e
       \<and> snd (main lib) = 1
       \<and> printed (get_react_docs lib) = printed (get_react_docs (lib\<lparr>close := \<lambda>s. (None, s)\<rparr>))
       \<and> (\<forall>c k m c1 c2. MCPConnector lib server_name stdio = Inr c \<longrightarrow>
             connect lib c = (Some (Error k m), c1) \<longrightarrow> close lib c1 = (Some e, c2) \<longrightarrow>
             main lib = ([''Error: '' @ m], 1))"
proof -
  have a: "escaped (get_react_docs lib) = Some e"
    using assms by (rule close_event_escapes)
  then have b: "snd (main lib) = 1"
    by (simp add: main_def exit_status_def)
  have d: "main lib = ([''Error: '' @ m], 1)"
    if "MCPConnector lib server_name stdio = Inr c" "connect lib c = (Some (Error k m), c1)"
      "close lib c1 = (Some e, c2)" for c k m c1 c2
    using that by (simp add: main_def exit_status_def path_connect_error)
  from a b d printed_ignores_close [where lib = lib] show ?thesis by simp
qed

theorem close_error_escapes_witness:
  "(Close, Some (Error OtherError ''not connected'')) \<in> set (trace (get_react_docs strict_close))
   \<and> MCPConnector strict_close server_name stdio = Inr Disconnected
   \<and> connect strict_close Disconnected = (Some (Error ConnectionError ''refused''), Disconnected)
   \<and> close strict_close Disconnected = (Some (Error OtherError ''not connected''), Disconnected)
   \<and> escaped (get_react_docs strict_close) = Some (Error OtherError ''not connected'')
   \<and> main strict_close = ([''Error: refused''], 1)"
proof -
  have h: "(Close, Some (Error OtherError ''not connected'')) \<in> set (trace (get_react_docs strict_close))"
    by (simp add: server_defs run_defs)
  have s: "MCPConnector strict_close server_name stdio = Inr Disconnected"
    and s1: "connect strict_close Disconnected = (Some (Error ConnectionError ''refused''), Disconnected)"
    and s2: "close strict_close Disconnected = (Some (Error OtherError ''not connected''), Disconnected)"
    by (simp_all add: server_defs)
  from close_error_escapes [OF h] s s1 s2
  have "escaped (get_react_docs strict_close) = Some (Error OtherError ''not connected'')"
    and "main strict_close = ([''Error: '' @ ''refused''], 1)"
    by blast+
  then show ?thesis using h s s1 s2 by simp
qed

text \<open>
  C10. The connector is constructed on lines 10 to 13, before the \<open>try\<close> on line 15.
  In every run in which the construction raises, nothing is printed (so no
  \<open>Error: <message>\<close> line), the only call of the package is the constructor (so
  \<open>close\<close> is never called), and the exception leaves \<open>get_react_docs\<close> and ends the
  process with status 1.
\<close>

theorem constructor_error_escapes:
  assumes "MCPConnector lib server_name stdio = Inl e"
  shows "printed (get_react_docs lib) = []
       \<and> trace (get_react_docs lib) = [(NewConnector server_name stdio, Some e)]
       \<and> (\<forall>ev \<in> set (trace (get_react_docs lib)). fst ev \<noteq> Close)
       \<and> escaped (get_react_docs lib) = Some e
       \<and> main lib = ([], 1)"
  using assms by (simp add: path_new_raises main_def exit_status_def)

theorem constructor_error_escapes_witness:
  "MCPConnector no_such_server server_name stdio = Inl (Error OtherError ''no such server'')
   \<and> printed (get_react_docs no_such_server) = []
   \<and> trace (get_react_docs no_such_server) =
        [(NewConnector server_name stdio, Some (Error OtherError ''no such server''))]
   \<and> escaped (get_react_docs no_such_server) = Some (Error OtherError ''no such server'')
   \<and> main no_such_server = ([], 1)"
proof -
  have h: "MCPConnector no_such_server server_name stdio = Inl (Error OtherError ''no such server'')"
    by (simp add: server_defs)
  from constructor_error_escapes [OF h] h show ?thesis by simp
qed

section \<open>Order and number of the calls\<close>

text \<open>
  C5. In every run, each tool invocation in the trace comes after a call of \<open>connect\<close>
  that returned: however the trace is split at a \<open>tool_call\<close>, the part before it
  holds a successful \<open>connect\<close>.
\<close>

theorem connect_before_tool_call:
  "trace (get_react_docs lib) = pre @ (ToolCall p, x) # post \<Longrightarrow> (Connect, None) \<in> set pre"
proof (cases "MCPConnector lib server_name stdio")
  case (Inl e)
  assume "trace (get_react_docs lib) = pre @ (ToolCall p, x) # post"
  with Inl show ?thesis
    by (auto simp: path_new_raises append_eq_Cons_conv Cons_eq_append_conv)
next
  case (Inr c)
  assume "trace (get_react_docs lib) = pre @ (ToolCall p, x) # post"
  with trace_shapes [OF Inr] show ?thesis
    by (auto simp: append_eq_Cons_conv Cons_eq_append_conv)
qed

theorem connect_before_tool_call_witness:
  "trace (get_react_docs healthy) =
      [(NewConnector server_name stdio, None), (Connect, None)] @ (ToolCall params, None) # [(Close, None)]
   \<and> (Connect, None) \<in> set [(NewConnector server_name stdio, None), (Connect, None :: exn option)]"
proof -
  have h: "trace (get_react_docs healthy) =
      [(NewConnector server_name stdio, None), (Connect, None)] @ (ToolCall params, None) # [(Close, None)]"
    by (simp add: server_defs run_defs)
  from connect_before_tool_call [OF h] h show ?thesis by blast
qed






section \<open>The handler and the exit status\<close>

text \<open>
  C3, as the code has it. The exit status is 0 whenever \<open>get_react_docs\<close> returns. In
  every run in which \<open>connect\<close> or \<open>tool_call\<close> raises an error, that is an instance
  of \<open>Exception\<close>, and \<open>close\<close> then returns, the script prints the one line
  \<open>Error: <message>\<close>, nothing else, and exits with status 0.
\<close>

theorem exit_status_zero:
  assumes new: "MCPConnector lib server_name stdio = Inr c"
  shows "(escaped (get_react_docs lib) = None \<longrightarrow> snd (main lib) = 0)
       \<and> (\<forall>k m c1 c2. connect lib c = (Some (Error k m), c1) \<longrightarrow> close lib c1 = (None, c2) \<longrightarrow>
             main lib = ([''Error: '' @ m], 0))
       \<and> (\<forall>k m c1 c2 c3. connect lib c = (None, c1) \<longrightarrow>
             tool_call lib c1 params = (Inl (Error k m), c2) \<longrightarrow> close lib c2 = (None, c3) \<longrightarrow>
             main lib = ([''Error: '' @ m], 0))"
proof -
  have a: "escaped (get_react_docs lib) = None \<longrightarrow> snd (main lib) = 0"
    by (simp add: main_def exit_status_def)
  have b: "main lib = ([''Error: '' @ m], 0)"
    if "connect lib c = (Some (Error k m), c1)" "close lib c1 = (None, c2)" for k m c1 c2
    using new that by (simp add: main_def exit_status_def path_connect_error)
  have d: "main lib = ([''Error: '' @ m], 0)"
    if "connect lib c = (None, c1)" "tool_call lib c1 params = (Inl (Error k m), c2)"
      "close lib c2 = (None, c3)" for k m c1 c2 c3
    using new that by (simp add: main_def exit_status_def path_tool_call_error)
  from a b d show ?thesis by blast
qed

theorem exit_status_zero_witness:
  "MCPConnector unreachable server_name stdio = Inr Disconnected
   \<and> connect unreachable Disconnected = (Some (Error ConnectionError ''refused''), Disconnected)
   \<and> close unreachable Disconnected = (None, Disconnected)
   \<and> main unreachable = ([''Error: refused''], 0)
   \<and> connect tool_failure Disconnected = (None, Connected)
   \<and> tool_call tool_failure Connected params = (Inl (Error InvocationError ''tool failed''), Connected)
   \<and> close tool_failure Connected = (None, Disconnected)
   \<and> main tool_failure = ([''Error: tool failed''], 0)
   \<and> escaped (get_react_docs healthy) = None
   \<and> snd (main healthy) = 0"
proof -
  have u: "MCPConnector unreachable server_name stdio = Inr Disconnected"
    and u1: "connect unreachable Disconnected = (Some (Error ConnectionError ''refused''), Disconnected)"
    and u2: "close unreachable Disconnected = (None, Disconnected)"
    by (simp_all add: server_defs)
  have t: "MCPConnector tool_failure server_name stdio = Inr Disconnected"
    and t1: "connect tool_failure Disconnected = (None, Connected)"
    and t2: "tool_call tool_failure Connected params = (Inl (Error InvocationError ''tool failed''), Connected)"
    and t3: "close tool_failure Connected = (None, Disconnected)"
    by (simp_all add: tool_failure_def scripted_def)
  have h: "MCPConnector healthy server_name stdio = Inr Disconnected"
    and h1: "escaped (get_react_docs healthy) = None"
    by (simp_all add: server_defs run_defs)
  from exit_status_zero [OF u] u1 u2 have "main unreachable = ([''Error: '' @ ''refused''], 0)"
    by blast
  moreover from exit_status_zero [OF t] t1 t2 t3
  have "main tool_failure = ([''Error: '' @ ''tool failed''], 0)"
    by blast
  moreover from exit_status_zero [OF h] h1 have "snd (main healthy) = 0"
    by blast
  ultimately show ?thesis using u u1 u2 t1 t2 t3 h1 by simp
qed

text \<open>
  The claim that every run in which an error is raised exits with status 0 does not
  hold: against a server whose \<open>connect\<close> raises and whose \<open>close\<close> then raises as well,
  the line for the first error is printed and the process exits with status 1.
\<close>

theorem exit_status_zero_counterexample:
  "MCPConnector strict_close server_name stdio = Inr Disconnected
   \<and> connect strict_close Disconnected = (Some (Error ConnectionError ''refused''), Disconnected)
   \<and> main strict_close = ([''Error: refused''], 1)"
  by (simp add: server_defs run_defs main_def exit_status_def)

text \<open>
  C6. Whatever the kind \<open>k\<close> of the error that \<open>connect\<close> or \<open>tool_call\<close> raises, the
  one handler catches it and prints the one line \<open>Error: <message>\<close>, in which the kind
  does not occur. The handler does not touch the exit status: the error never leaves
  \<open>get_react_docs\<close>, and the status is what \<open>close\<close> alone decides, 0 when it returns
  and 1 when it raises, exactly as in a run in which nothing was raised before.
\<close>

theorem handler_indiscriminate:
  assumes new: "MCPConnector lib server_name stdio = Inr c"
  shows "(\<forall>k m c1 x c2. connect lib c = (Some (Error k m), c1) \<longrightarrow> close lib c1 = (x, c2) \<longrightarrow>
            main lib = ([''Error: '' @ m], case x of None \<Rightarrow> 0 | Some _ \<Rightarrow> 1))
       \<and> (\<forall>k m c1 c2 x c3. connect lib c = (None, c1) \<longrightarrow>
            tool_call lib c1 params = (Inl (Error k m), c2) \<longrightarrow> close lib c2 = (x, c3) \<longrightarrow>
            main lib = ([''Error: '' @ m], case x of None \<Rightarrow> 0 | Some _ \<Rightarrow> 1))
       \<and> (\<forall>c1 res c2 x c3. connect lib c = (None, c1) \<longrightarrow>
            tool_call lib c1 params = (Inr res, c2) \<longrightarrow> close lib c2 = (x, c3) \<longrightarrow>
            snd (main lib) = (case x of None \<Rightarrow> 0 | Some _ \<Rightarrow> 1))"
proof -
  have a: "main lib = ([''Error: '' @ m], case x of None \<Rightarrow> 0 | Some _ \<Rightarrow> 1)"
    if "connect lib c = (Some (Error k m), c1)" "close lib c1 = (x, c2)" for k m c1 x c2
    using new that by (simp add: main_def exit_status_def path_connect_error)
  have b: "main lib = ([''Error: '' @ m], case x of None \<Rightarrow> 0 | Some _ \<Rightarrow> 1)"
    if "connect lib c = (None, c1)" "tool_call lib c1 params = (Inl (Error k m), c2)"
      "close lib c2 = (x, c3)" for k m c1 c2 x c3
    using new that by (simp add: main_def exit_status_def path_tool_call_error)
  have d: "snd (main lib) = (case x of None \<Rightarrow> 0 | Some _ \<Rightarrow> 1)"
    if "connect lib c = (None, c1)" "tool_call lib c1 params = (Inr res, c2)"
      "close lib c2 = (x, c3)" for c1 res c2 x c3
    using new that by (simp add: main_def exit_status_def path_success)
  from a b d show ?thesis by blast
qed

theorem handler_indiscriminate_witness:
  "MCPConnector unreachable server_name stdio = Inr Disconnected
   \<and> connect unreachable Disconnected = (Some (Error ConnectionError ''refused''), Disconnected)
   \<and> close unreachable Disconnected = (None, Disconnected)
   \<and> main unreachable = ([''Error: refused''], 0)
   \<and> connect tool_failure Disconnected = (None, Connected)
   \<and> tool_call tool_failure Connected params = (Inl (Error InvocationError ''tool failed''), Connected)
   \<and> close tool_failure Connected = (None, Disconnected)
   \<and> main tool_failure = ([''Error: tool failed''], 0)
   \<and> tool_call healthy Connected params = (Inr \<lparr>result = ''docs''\<rparr>, Connected)
   \<and> snd (main healthy) = 0"
proof -
  have u: "MCPConnector unreachable server_name stdio = Inr Disconnected"
    and u1: "connect unreachable Disconnected = (Some (Error ConnectionError ''refused''), Disconnected)"
    and u2: "close unreachable Disconnected = (None, Disconnected)"
    by (simp_all add: server_defs)
  have t: "MCPConnector tool_failure server_name stdio = Inr Disconnected"
    and t1: "connect tool_failure Disconnected = (None, Connected)"
    and t2: "tool_call tool_failure Connected params = (Inl (Error InvocationError ''tool failed''), Connected)"
    and t3: "close tool_failure Connected = (None, Disconnected)"
    by (simp_all add: tool_failure_def scripted_def)
  have h: "MCPConnector healthy server_name stdio = Inr Disconnected"
    and h1: "connect healthy Disconnected = (None, Connected)"
    and h2: "tool_call healthy Connected params = (Inr \<lparr>result = ''docs''\<rparr>, Connected)"
    and h3: "close healthy Connected = (None, Disconnected)"
    by (simp_all add: server_defs)
  from handler_indiscriminate [OF u] u1 u2
  have "main unreachable = ([''Error: '' @ ''refused''], case None :: exn option of None \<Rightarrow> 0 | Some _ \<Rightarrow> 1)"
    by blast
  moreover from handler_indiscriminate [OF t] t1 t2 t3
  have "main tool_failure = ([''Error: '' @ ''tool failed''], case None :: exn option of None \<Rightarrow> 0 | Some _ \<Rightarrow> 1)"
    by blast
  moreover from handler_indiscriminate [OF h] h1 h2 h3
  have "snd (main healthy) = (case None :: exn option of None \<Rightarrow> 0 | Some _ \<Rightarrow> 1)"
    by blast
  ultimately show ?thesis using u u1 u2 t1 t2 t3 h2 by simp
qed

end
